theory Spec2Isabelle
  imports Main "HOL-Library.Sublist" "HOL-Library.Word"
begin

section \<open>Student portal: the two servers as state transformers\<close>

text \<open>
  The repository holds two Express servers over one MongoDB database:
  \<^verbatim>\<open>src/server.js\<close> keeps uploaded files in GridFS (bucket \<^verbatim>\<open>uploads\<close>) and
  \<^verbatim>\<open>src/backend/server.js\<close> keeps them on the local disk. Every route handler is an
  \<^verbatim>\<open>async (req, res) => { try { ... } catch (error) { res.status(500)... } }\<close>;
  it is modelled as a function from the server's state and the request to the response
  and the new state. The handlers of the GridFS server carry the name of their route;
  those of the disk server carry the prefix \<open>backend_\<close>. The person routes
  (students, faculty, admin) have the same text in both files and are modelled once,
  with the role as a parameter; the content routes (materials, questions, updates)
  take the kind as a parameter in the same way.
\<close>

subsection \<open>JavaScript values\<close>

type_synonym objid = nat
type_synonym bytes = "8 word list"

text \<open>
  An error object: \<^verbatim>\<open>error.code\<close> (absent, a number as MongoDB gives, or a string
  as Node and multer give) and \<^verbatim>\<open>error.message\<close>.
\<close>

datatype err_code = NoCode | NumCode nat | StrCode string

datatype js_error = JsError (errCode: err_code) (errMessage: string)

definition duplicate_key :: js_error where
  "duplicate_key = JsError (NumCode 11000) ''E11000 duplicate key error collection''"

text \<open>
  A string-valued field is \<open>None\<close> when it is \<^verbatim>\<open>undefined\<close> or \<^verbatim>\<open>null\<close>.
  \<open>truthy\<close> is JavaScript's test of such a value in a condition, \<open>js_or\<close> is
  \<^verbatim>\<open>a || b\<close> and \<open>or_default\<close> is \<^verbatim>\<open>a || 'literal'\<close>.
\<close>

definition truthy :: "string option \<Rightarrow> bool" where
  "truthy v = (case v of None \<Rightarrow> False | Some s \<Rightarrow> s \<noteq> [])"

definition js_or :: "string option \<Rightarrow> string option \<Rightarrow> string option" where
  "js_or a b = (if truthy a then a else b)"

definition or_default :: "string option \<Rightarrow> string \<Rightarrow> string" where
  "or_default a d = (case a of None \<Rightarrow> d | Some s \<Rightarrow> if s = [] then d else s)"

text \<open>An ObjectId is an object and so always truthy: \<^verbatim>\<open>a || b\<close> on optional ids.\<close>

definition id_or :: "objid option \<Rightarrow> objid option \<Rightarrow> objid option" where
  "id_or a b = (case a of Some x \<Rightarrow> Some x | None \<Rightarrow> b)"

subsection \<open>Documents\<close>

text \<open>
  \<^verbatim>\<open>StudentSchema\<close>, \<^verbatim>\<open>FacultySchema\<close> and \<^verbatim>\<open>AdminSchema\<close>: \<open>userId\<close> has the
  unique index; the other fields (name, password, phone, year, department, role) are
  read by none of the handlers below and are kept as a list of pairs.
\<close>

record person =
  userId :: "string option"
  profile :: "(string \<times> string) list"

datatype role = Student | Faculty | Admin

text \<open>
  \<^verbatim>\<open>MaterialSchema\<close>, shared by the models Material, Question and Update. The form
  fields come first; \<open>fileId\<close> exists in the GridFS server's schema only.
  \<^verbatim>\<open>createdAt\<close> (the clock) is left out.
\<close>

record form =
  title :: "string option"
  description :: "string option"
  year :: "string option"
  department :: "string option"
  createdBy :: "string option"

record content = form +
  fileName :: "string option"
  originalFileName :: "string option"
  filePath :: "string option"
  fileSize :: "nat option"
  fileType :: "string option"
  fileId :: "objid option"

datatype kind = Material | Question | Update

subsection \<open>The state: database, GridFS bucket, disk\<close>

datatype fsnode = File bytes | Dir

text \<open>
  The calls into MongoDB, GridFS and the file system that can throw. \<open>fault\<close> of the
  state says which of them the environment refuses (a lost connection, a document the
  schema cannot cast, a file the process may not remove), and with which error.
\<close>

datatype call =
    Find kind objid
  | Save kind objid
  | Remove kind objid
  | SavePerson role person
  | DeleteOne role string
  | GridPut objid
  | GridDel objid
  | FsWrite string
  | FsUnlink string

text \<open>
  \<open>gfsBucket\<close> is the variable of that name: \<open>False\<close> while it is still
  \<^verbatim>\<open>null\<close>. \<open>uploadsPath\<close> is \<^verbatim>\<open>path.join(uploadsDir, _)\<close> and \<open>extname\<close> is
  \<^verbatim>\<open>path.extname\<close>, both of Node's library.
\<close>

record server =
  contents :: "kind \<Rightarrow> objid \<rightharpoonup> content"
  people :: "role \<Rightarrow> person list"
  bucket :: "objid \<rightharpoonup> bytes"
  gfsBucket :: bool
  fs :: "string \<rightharpoonup> fsnode"
  uploadsPath :: "string \<Rightarrow> string"
  extname :: "string \<Rightarrow> string"
  fault :: "call \<Rightarrow> js_error option"

subsection \<open>Responses\<close>

datatype body =
    Message bool string
  | Error500 string
  | ContentDoc string objid content
  | ContentData objid content
  | PersonDoc person
  | Bulk nat "string option list" "person list"
  | DeletedCount nat

datatype disposition = Attachment | Inline

text \<open>
  \<open>Json s b\<close> is \<^verbatim>\<open>res.status(s).json(b)\<close> (\<^verbatim>\<open>res.json(b)\<close> is status 200);
  \<open>Download p n bs\<close> is \<^verbatim>\<open>res.download(p, n)\<close> of a regular file with bytes \<open>bs\<close>;
  \<open>Piped t d n bs\<close> is a stream piped into the response after the headers
  Content-Type \<open>t\<close> and Content-Disposition \<open>d\<close> with file name \<open>n\<close>;
  \<open>DefaultError e\<close> is \<^verbatim>\<open>next(e)\<close> from a middleware: neither server registers an
  error handler, so Express's default one answers, with status 500 for an error that
  carries no status; \<open>PassedOn\<close> is \<^verbatim>\<open>res.download\<close> of a directory, which Express
  hands on to its final 404; \<open>Crashed\<close> is an \<^verbatim>\<open>error\<close> event on a stream that has
  no listener, which ends the process without a response.
\<close>

datatype response =
    Json nat body
  | Download string "string option" bytes
  | Piped string disposition "string option" bytes
  | DefaultError js_error
  | PassedOn
  | Crashed

fun status :: "response \<Rightarrow> nat option" where
  "status (Json s b) = Some s"
| "status (Download p n bs) = Some 200"
| "status (Piped t d n bs) = Some 200"
| "status (DefaultError e) = Some 500"
| "status PassedOn = Some 404"
| "status Crashed = None"

fun success :: "body \<Rightarrow> bool" where
  "success (Message b m) = b"
| "success (Error500 m) = False"
| "success (ContentDoc m i c) = True"
| "success (ContentData i c) = True"
| "success (PersonDoc p) = True"
| "success (Bulk n ds rs) = True"
| "success (DeletedCount n) = True"

text \<open>The bytes a response carries to the client, if it carries a file.\<close>

fun streamed :: "response \<Rightarrow> bytes option" where
  "streamed (Download p n bs) = Some bs"
| "streamed (Piped t d n bs) = Some bs"
| "streamed r = None"

subsection \<open>The person store (Mongoose models Student, Faculty, Admin)\<close>

text \<open>
  \<^verbatim>\<open>doc.save()\<close>: rejected with the environment's error if there is one, with
  E11000 when the unique index on \<open>userId\<close> already holds the value, and stored
  otherwise.
\<close>

definition save_person :: "server \<Rightarrow> role \<Rightarrow> person \<Rightarrow> js_error + server" where
  "save_person s r p =
     (case fault s (SavePerson r p) of
        Some e \<Rightarrow> Inl e
      | None \<Rightarrow>
          if userId p \<in> userId ` set (people s r) then Inl duplicate_key
          else Inr (s\<lparr>people := (people s)(r := people s r @ [p])\<rparr>))"

primrec remove_first :: "('a \<Rightarrow> bool) \<Rightarrow> 'a list \<Rightarrow> 'a list" where
  "remove_first P [] = []"
| "remove_first P (x # xs) = (if P x then xs else x # remove_first P xs)"

text \<open>\<^verbatim>\<open>Model.deleteOne({ userId })\<close>: the result's \<^verbatim>\<open>deletedCount\<close> and the new state.\<close>

definition deleteOne :: "server \<Rightarrow> role \<Rightarrow> string \<Rightarrow> js_error + nat \<times> server" where
  "deleteOne s r u =
     (case fault s (DeleteOne r u) of
        Some e \<Rightarrow> Inl e
      | None \<Rightarrow>
          if Some u \<in> userId ` set (people s r)
          then Inr (1, s\<lparr>people := (people s)(r := remove_first (\<lambda>p. userId p = Some u) (people s r))\<rparr>)
          else Inr (0, s))"

fun exists_message :: "role \<Rightarrow> string" where
  "exists_message Student = ''Student ID already exists''"
| "exists_message Faculty = ''Faculty ID already exists''"
| "exists_message Admin = ''Admin ID already exists''"

fun person_not_found :: "role \<Rightarrow> string" where
  "person_not_found Student = ''Student not found''"
| "person_not_found Faculty = ''Faculty not found''"
| "person_not_found Admin = ''Admin not found''"

text \<open>\<^verbatim>\<open>POST /api/students\<close>, \<^verbatim>\<open>/api/faculty\<close>, \<^verbatim>\<open>/api/admin\<close>.\<close>

definition person_post :: "server \<Rightarrow> role \<Rightarrow> person \<Rightarrow> response \<times> server" where
  "person_post s r p =
     (case save_person s r p of
        Inr s' \<Rightarrow> (Json 200 (PersonDoc p), s')
      | Inl e \<Rightarrow>
          if errCode e = NumCode 11000 then (Json 200 (Message False (exists_message r)), s)
          else (Json 500 (Error500 (errMessage e)), s))"

text \<open>
  The loop of \<^verbatim>\<open>POST /api/students/bulk\<close> (and faculty, admin): the accumulator is
  \<^verbatim>\<open>results\<close>, \<^verbatim>\<open>duplicates\<close>, \<^verbatim>\<open>addedCount\<close>. The inner \<^verbatim>\<open>catch\<close> records a
  duplicate for code 11000 and does nothing for any other error.
\<close>

fun bulk_loop ::
  "server \<Rightarrow> role \<Rightarrow> person list \<Rightarrow> person list \<times> string option list \<times> nat
     \<Rightarrow> (person list \<times> string option list \<times> nat) \<times> server" where
  "bulk_loop s r [] acc = (acc, s)"
| "bulk_loop s r (d # ds) (results, duplicates, addedCount) =
     (case save_person s r d of
        Inr s' \<Rightarrow> bulk_loop s' r ds (results @ [d], duplicates, addedCount + 1)
      | Inl e \<Rightarrow>
          if errCode e = NumCode 11000
          then bulk_loop s r ds (results, duplicates @ [userId d], addedCount)
          else bulk_loop s r ds (results, duplicates, addedCount))"

text \<open>
  The request body's list is \<open>None\<close> when the key is missing: \<^verbatim>\<open>for (... of undefined)\<close>
  throws a TypeError, which the outer \<^verbatim>\<open>catch\<close> answers.
\<close>

definition person_bulk :: "server \<Rightarrow> role \<Rightarrow> person list option \<Rightarrow> response \<times> server" where
  "person_bulk s r b =
     (case b of
        None \<Rightarrow> (Json 500 (Error500 ''undefined is not iterable''), s)
      | Some ds \<Rightarrow>
          (case bulk_loop s r ds ([], [], 0) of
             ((results, duplicates, addedCount), s') \<Rightarrow>
               (Json 200 (Bulk addedCount duplicates results), s')))"

text \<open>\<^verbatim>\<open>DELETE /api/students/delete/individual\<close> (and faculty, admin); \<open>q\<close> is \<^verbatim>\<open>req.query.userId\<close>.\<close>

definition person_delete_individual ::
  "server \<Rightarrow> role \<Rightarrow> string option \<Rightarrow> response \<times> server" where
  "person_delete_individual s r q =
     (if \<not> truthy q then (Json 400 (Message False ''User ID is required''), s)
      else
        (case deleteOne s r (the q) of
           Inl e \<Rightarrow> (Json 500 (Error500 (errMessage e)), s)
         | Inr (deletedCount, s') \<Rightarrow>
             if deletedCount > 0 then (Json 200 (DeletedCount deletedCount), s')
             else (Json 200 (Message False (person_not_found r)), s')))"

subsection \<open>The content store (Mongoose models Material, Question, Update)\<close>

text \<open>
  \<^verbatim>\<open>Model.findById\<close>, \<^verbatim>\<open>doc.save()\<close> (E11000 on an \<^verbatim>\<open>_id\<close> the collection
  already holds) and \<^verbatim>\<open>Model.findByIdAndDelete\<close>. An id is a number here;
  \<^verbatim>\<open>findById\<close> throws a CastError on a \<^verbatim>\<open>req.params.id\<close> that is no well-formed
  ObjectId, as it throws on a lost connection: either is a \<open>fault\<close> of the call
  \<open>Find\<close> for that id.
\<close>

definition findById :: "server \<Rightarrow> kind \<Rightarrow> objid \<Rightarrow> js_error + content option" where
  "findById s k i =
     (case fault s (Find k i) of Some e \<Rightarrow> Inl e | None \<Rightarrow> Inr (contents s k i))"

definition save_doc :: "server \<Rightarrow> kind \<Rightarrow> objid \<Rightarrow> content \<Rightarrow> js_error + server" where
  "save_doc s k i c =
     (case fault s (Save k i) of
        Some e \<Rightarrow> Inl e
      | None \<Rightarrow>
          if contents s k i \<noteq> None then Inl duplicate_key
          else Inr (s\<lparr>contents := (contents s)(k := (contents s k)(i \<mapsto> c))\<rparr>))"

definition findByIdAndDelete :: "server \<Rightarrow> kind \<Rightarrow> objid \<Rightarrow> js_error + server" where
  "findByIdAndDelete s k i =
     (case fault s (Remove k i) of
        Some e \<Rightarrow> Inl e
      | None \<Rightarrow> Inr (s\<lparr>contents := (contents s)(k := (contents s k)(i := None))\<rparr>))"

subsection \<open>GridFS and the disk\<close>

text \<open>
  \<^verbatim>\<open>gfsBucket.delete(id)\<close> throws when the bucket holds no file of that id.
  \<^verbatim>\<open>fs.existsSync\<close>, \<^verbatim>\<open>fs.statSync(p).isFile()\<close> and \<^verbatim>\<open>fs.unlinkSync\<close>, which
  throws on a directory and on a missing path:
\<close>

definition gridfs_delete :: "server \<Rightarrow> objid \<Rightarrow> js_error + server" where
  "gridfs_delete s f =
     (case fault s (GridDel f) of
        Some e \<Rightarrow> Inl e
      | None \<Rightarrow>
          (case bucket s f of
             None \<Rightarrow> Inl (JsError NoCode ''File not found for id'')
           | Some bs \<Rightarrow> Inr (s\<lparr>bucket := (bucket s)(f := None)\<rparr>)))"

definition existsSync :: "server \<Rightarrow> string \<Rightarrow> bool" where
  "existsSync s p = (fs s p \<noteq> None)"

definition isFile :: "server \<Rightarrow> string \<Rightarrow> bool" where
  "isFile s p = (case fs s p of Some (File bs) \<Rightarrow> True | _ \<Rightarrow> False)"

definition readFile :: "server \<Rightarrow> string \<Rightarrow> bytes" where
  "readFile s p = (case fs s p of Some (File bs) \<Rightarrow> bs | _ \<Rightarrow> [])"

definition unlinkSync :: "server \<Rightarrow> string \<Rightarrow> js_error + server" where
  "unlinkSync s p =
     (case fault s (FsUnlink p) of
        Some e \<Rightarrow> Inl e
      | None \<Rightarrow>
          (case fs s p of
             Some (File bs) \<Rightarrow> Inr (s\<lparr>fs := (fs s)(p := None)\<rparr>)
           | Some Dir \<Rightarrow> Inl (JsError (StrCode ''EISDIR'') ''illegal operation on a directory, unlink'')
           | None \<Rightarrow> Inl (JsError (StrCode ''ENOENT'') ''no such file or directory, unlink'')))"

subsection \<open>Retrieval: download and view\<close>

text \<open>
  The opening of all four retrieval handlers: three \<^verbatim>\<open>findById\<close> calls, each made
  only while \<^verbatim>\<open>content\<close> is still \<^verbatim>\<open>null\<close>.
\<close>

definition resolve :: "server \<Rightarrow> objid \<Rightarrow> js_error + content option" where
  "resolve s i =
     (case findById s Material i of
        Inl e \<Rightarrow> Inl e
      | Inr (Some c) \<Rightarrow> Inr (Some c)
      | Inr None \<Rightarrow>
          (case findById s Question i of
             Inl e \<Rightarrow> Inl e
           | Inr (Some c) \<Rightarrow> Inr (Some c)
           | Inr None \<Rightarrow> findById s Update i))"

text \<open>
  \<^verbatim>\<open>src/server.js\<close>, the rest of \<^verbatim>\<open>GET /api/files/download/:id\<close> once \<open>content\<close> is
  found. A missing GridFS file makes the download stream emit \<^verbatim>\<open>error\<close> before any
  byte, which the listener answers with 404.
\<close>

definition download_content :: "server \<Rightarrow> content \<Rightarrow> response" where
  "download_content s c =
     (case fileId c of
        Some f \<Rightarrow>
          if \<not> gfsBucket s then Json 500 (Message False ''GridFS bucket not initialized'')
          else
            (case bucket s f of
               Some bs \<Rightarrow>
                 Piped (or_default (fileType c) ''application/octet-stream'') Attachment
                   (Some (or_default (js_or (originalFileName c) (fileName c)) ''file'')) bs
             | None \<Rightarrow> Json 404 (Message False ''File not found on server''))
      | None \<Rightarrow>
          if truthy (filePath c) \<and> existsSync s (the (filePath c)) \<and> isFile s (the (filePath c))
          then Download (the (filePath c)) (js_or (originalFileName c) (fileName c))
                 (readFile s (the (filePath c)))
          else Json 404 (Message False ''File not found on server''))"

definition files_download :: "server \<Rightarrow> objid \<Rightarrow> response" where
  "files_download s i =
     (case resolve s i of
        Inl e \<Rightarrow> Json 500 (Error500 (errMessage e))
      | Inr None \<Rightarrow> Json 404 (Message False ''File not found'')
      | Inr (Some c) \<Rightarrow> download_content s c)"

text \<open>\<^verbatim>\<open>src/server.js\<close>, \<^verbatim>\<open>GET /api/files/view/:id\<close>.\<close>

definition view_content :: "server \<Rightarrow> content \<Rightarrow> response" where
  "view_content s c =
     (case fileId c of
        Some f \<Rightarrow>
          if \<not> gfsBucket s then Json 500 (Message False ''GridFS bucket not initialized'')
          else
            (case bucket s f of
               Some bs \<Rightarrow>
                 Piped (or_default (fileType c) ''application/octet-stream'') Inline
                   (Some (or_default (js_or (originalFileName c) (fileName c)) ''file'')) bs
             | None \<Rightarrow> Json 404 (Message False ''File not found on server''))
      | None \<Rightarrow>
          if truthy (filePath c) \<and> existsSync s (the (filePath c)) \<and> isFile s (the (filePath c))
          then Piped (or_default (fileType c) ''application/octet-stream'') Inline
                 (js_or (originalFileName c) (fileName c)) (readFile s (the (filePath c)))
          else Json 404 (Message False ''File not found on server''))"

definition files_view :: "server \<Rightarrow> objid \<Rightarrow> response" where
  "files_view s i =
     (case resolve s i of
        Inl e \<Rightarrow> Json 500 (Error500 (errMessage e))
      | Inr None \<Rightarrow> Json 404 (Message False ''File not found'')
      | Inr (Some c) \<Rightarrow> view_content s c)"

text \<open>
  \<^verbatim>\<open>src/backend/server.js\<close>: the record counts as having a file when \<open>fileName\<close>
  is set, and the path is \<^verbatim>\<open>content.filePath || path.join(uploadsDir, content.fileName)\<close>.
  Neither handler asks whether the path is a regular file.
\<close>

definition backend_path :: "server \<Rightarrow> content \<Rightarrow> string" where
  "backend_path s c =
     (if truthy (filePath c) then the (filePath c) else uploadsPath s (the (fileName c)))"

definition backend_download_content :: "server \<Rightarrow> content \<Rightarrow> response" where
  "backend_download_content s c =
     (if \<not> truthy (fileName c) then Json 404 (Message False ''No file attached to this content'')
      else if \<not> existsSync s (backend_path s c)
      then Json 404 (Message False ''File not found on server'')
      else if isFile s (backend_path s c)
      then Download (backend_path s c) (js_or (originalFileName c) (fileName c))
             (readFile s (backend_path s c))
      else PassedOn)"

definition backend_files_download :: "server \<Rightarrow> objid \<Rightarrow> response" where
  "backend_files_download s i =
     (case resolve s i of
        Inl e \<Rightarrow> Json 500 (Error500 (errMessage e))
      | Inr None \<Rightarrow> Json 404 (Message False ''File not found'')
      | Inr (Some c) \<Rightarrow> backend_download_content s c)"

definition backend_view_content :: "server \<Rightarrow> content \<Rightarrow> response" where
  "backend_view_content s c =
     (if \<not> truthy (fileName c) then Json 404 (Message False ''No file attached to this content'')
      else if \<not> existsSync s (backend_path s c)
      then Json 404 (Message False ''File not found on server'')
      else if isFile s (backend_path s c)
      then Piped (or_default (fileType c) ''application/octet-stream'') Inline
             (js_or (originalFileName c) (fileName c)) (readFile s (backend_path s c))
      else Crashed)"

definition backend_files_view :: "server \<Rightarrow> objid \<Rightarrow> response" where
  "backend_files_view s i =
     (case resolve s i of
        Inl e \<Rightarrow> Json 500 (Error500 (errMessage e))
      | Inr None \<Rightarrow> Json 404 (Message False ''File not found'')
      | Inr (Some c) \<Rightarrow> backend_view_content s c)"

subsection \<open>Upload: the multer gate, the storage engines, the handlers\<close>

text \<open>
  The file part of a multipart request, and \<^verbatim>\<open>req.file\<close> as a storage engine leaves it:
  the handlers read \<^verbatim>\<open>id\<close>, \<^verbatim>\<open>_id\<close>, \<^verbatim>\<open>fileId\<close>, \<^verbatim>\<open>filename\<close>,
  \<^verbatim>\<open>metadata.originalname\<close>, \<^verbatim>\<open>originalname\<close>, \<^verbatim>\<open>originalName\<close>, \<^verbatim>\<open>contentType\<close>,
  \<^verbatim>\<open>mimetype\<close>, \<^verbatim>\<open>size\<close> and \<^verbatim>\<open>path\<close>.
\<close>

record file_part =
  part_originalname :: string
  part_mimetype :: string
  part_data :: bytes

record req_file =
  rf_id :: "objid option"
  rf__id :: "objid option"
  rf_fileId :: "objid option"
  rf_filename :: "string option"
  rf_metadata_originalname :: "string option"
  rf_originalname :: "string option"
  rf_originalName :: "string option"
  rf_contentType :: "string option"
  rf_mimetype :: "string option"
  rf_size :: "nat option"
  rf_path :: "string option"

text \<open>
  What a request brings that the code draws from the clock, the random generator and the
  driver: the prefix \<^verbatim>\<open>Date.now() + '-' + Math.round(Math.random() * 1E9)\<close>, the id of
  the new GridFS file and the \<^verbatim>\<open>_id\<close> of the new document.
\<close>

record fresh =
  uniq :: string
  gridId :: objid
  docId :: objid

record upload_req =
  req_part :: "file_part option"
  req_body :: form
  gen :: fresh

text \<open>
  \<^verbatim>\<open>/\.(pdf|doc|docx|ppt|pptx|xls|xlsx|txt|jpg|jpeg|png|gif|mp4|mp3|zip|rar)$/i\<close>
  tested on \<^verbatim>\<open>file.originalname\<close>: the name ends with a dot and one of the
  alternatives. Without the \<^verbatim>\<open>u\<close> flag, \<^verbatim>\<open>i\<close> never identifies a code unit outside
  ASCII with one inside, so on this pattern it is the folding of ASCII letters.
\<close>

definition ascii_lower :: "char \<Rightarrow> char" where
  "ascii_lower c =
     (let n = (of_char c :: nat) in if 65 \<le> n \<and> n \<le> 90 then char_of (n + 32) else c)"

definition extensions :: "string list" where
  "extensions =
     [''pdf'', ''doc'', ''docx'', ''ppt'', ''pptx'', ''xls'', ''xlsx'', ''txt'',
      ''jpg'', ''jpeg'', ''png'', ''gif'', ''mp4'', ''mp3'', ''zip'', ''rar'']"

definition endsWith :: "string \<Rightarrow> string \<Rightarrow> bool" where
  "endsWith name e =
     (length e \<le> length name \<and> drop (length name - length e) name = e)"

definition allowedTypes :: "string \<Rightarrow> bool" where
  "allowedTypes name =
     list_ex (\<lambda>e. endsWith (map ascii_lower name) (CHR ''.'' # e)) extensions"

text \<open>
  The allow-list in the spec's words: the extension of a name is what follows its last
  dot, and it is compared without regard to case.
\<close>

definition extension :: "string \<Rightarrow> string option" where
  "extension name =
     (if CHR ''.'' \<in> set name
      then Some (rev (takeWhile (\<lambda>c. c \<noteq> CHR ''.'') (rev name)))
      else None)"

definition spec_allowed :: "string \<Rightarrow> bool" where
  "spec_allowed name =
     (case extension name of
        None \<Rightarrow> False
      | Some e \<Rightarrow> map ascii_lower e \<in> set extensions)"

definition fileSizeLimit :: nat where
  "fileSizeLimit = 50 * 1024 * 1024"

text \<open>
  \<^verbatim>\<open>new GridFsStorage({ ..., file: (req, file) => ... })\<close>: the file goes to the bucket
  under a new id, and the engine reports id, filename, metadata, content type and size.
\<close>

definition gridfs_storage :: "server \<Rightarrow> fresh \<Rightarrow> file_part \<Rightarrow> js_error + req_file \<times> server" where
  "gridfs_storage s g p =
     (case fault s (GridPut (gridId g)) of
        Some e \<Rightarrow> Inl e
      | None \<Rightarrow>
          if bucket s (gridId g) \<noteq> None then Inl duplicate_key
          else Inr
            (\<lparr>rf_id = Some (gridId g), rf__id = None, rf_fileId = None,
              rf_filename = Some (uniq g @ ''-'' @ part_originalname p),
              rf_metadata_originalname = Some (part_originalname p),
              rf_originalname = Some (part_originalname p), rf_originalName = None,
              rf_contentType = Some (part_mimetype p), rf_mimetype = Some (part_mimetype p),
              rf_size = Some (length (part_data p)), rf_path = None\<rparr>,
             s\<lparr>bucket := (bucket s)(gridId g \<mapsto> part_data p)\<rparr>))"

text \<open>\<^verbatim>\<open>multer.diskStorage({ destination, filename })\<close> of the disk server.\<close>

definition disk_storage :: "server \<Rightarrow> fresh \<Rightarrow> file_part \<Rightarrow> js_error + req_file \<times> server" where
  "disk_storage s g p =
     (let uniqueName = uniq g @ extname s (part_originalname p);
          path = uploadsPath s uniqueName
      in case fault s (FsWrite path) of
           Some e \<Rightarrow> Inl e
         | None \<Rightarrow>
             Inr
               (\<lparr>rf_id = None, rf__id = None, rf_fileId = None,
                 rf_filename = Some uniqueName,
                 rf_metadata_originalname = None,
                 rf_originalname = Some (part_originalname p), rf_originalName = None,
                 rf_contentType = None, rf_mimetype = Some (part_mimetype p),
                 rf_size = Some (length (part_data p)), rf_path = Some path\<rparr>,
                s\<lparr>fs := (fs s)(path \<mapsto> File (part_data p))\<rparr>))"

text \<open>
  \<^verbatim>\<open>upload.single('file')\<close>: without a file part \<^verbatim>\<open>req.file\<close> stays undefined and the
  handler runs; the filter's error and the size limit's error go to \<^verbatim>\<open>next\<close>. The
  filter runs on the part's header, before any byte is read. A file over the limit is
  cut off while it streams into the storage engine, and multer then has the engine
  remove what it wrote: the state given here is the one after that removal.
  \<^verbatim>\<open>limits.fileSize\<close> is the largest size accepted.
\<close>

definition multer_single ::
  "(server \<Rightarrow> fresh \<Rightarrow> file_part \<Rightarrow> js_error + req_file \<times> server)
     \<Rightarrow> server \<Rightarrow> upload_req \<Rightarrow> (js_error + req_file option) \<times> server" where
  "multer_single storage s req =
     (case req_part req of
        None \<Rightarrow> (Inr None, s)
      | Some p \<Rightarrow>
          if \<not> allowedTypes (part_originalname p)
          then (Inl (JsError NoCode ''Invalid file type. Please upload educational content files.''), s)
          else if fileSizeLimit < length (part_data p)
          then (Inl (JsError (StrCode ''LIMIT_FILE_SIZE'') ''File too large''), s)
          else
            (case storage s (gen req) p of
               Inl e \<Rightarrow> (Inl e, s)
             | Inr (f, s') \<Rightarrow> (Inr (Some f), s')))"

fun uploaded_message :: "kind \<Rightarrow> string" where
  "uploaded_message Material = ''Material uploaded successfully''"
| "uploaded_message Question = ''Question bank uploaded successfully''"
| "uploaded_message Update = ''Update uploaded successfully''"

text \<open>
  \<^verbatim>\<open>src/server.js\<close>: the document built by \<^verbatim>\<open>POST /api/materials/upload\<close>,
  \<^verbatim>\<open>/api/questions/upload\<close> and \<^verbatim>\<open>/api/updates/upload\<close>. Only the materials route
  also tries \<^verbatim>\<open>req.file.originalName\<close>.
\<close>

definition upload_doc :: "kind \<Rightarrow> form \<Rightarrow> req_file \<Rightarrow> content" where
  "upload_doc k b f =
     (let gridFileId = id_or (rf_id f) (id_or (rf__id f) (rf_fileId f));
          gridFilename = rf_filename f;
          originalFileName =
            (if k = Material
             then js_or (rf_metadata_originalname f)
                    (js_or (rf_originalname f) (js_or (rf_originalName f) (rf_filename f)))
             else js_or (rf_metadata_originalname f) (js_or (rf_originalname f) gridFilename));
          fileType = or_default (js_or (rf_contentType f) (rf_mimetype f)) ''application/octet-stream'';
          fileSize = (case rf_size f of None \<Rightarrow> 0 | Some n \<Rightarrow> n)
      in form.extend b
           (content.fields gridFilename originalFileName None (Some fileSize) (Some fileType)
              gridFileId))"

definition content_upload :: "server \<Rightarrow> kind \<Rightarrow> upload_req \<Rightarrow> response \<times> server" where
  "content_upload s k req =
     (case multer_single gridfs_storage s req of
        (Inl e, s1) \<Rightarrow> (DefaultError e, s1)
      | (Inr None, s1) \<Rightarrow> (Json 400 (Message False ''No file uploaded''), s1)
      | (Inr (Some f), s1) \<Rightarrow>
          (case save_doc s1 k (docId (gen req)) (upload_doc k (req_body req) f) of
             Inl e \<Rightarrow> (Json 500 (Error500 (errMessage e)), s1)
           | Inr s2 \<Rightarrow>
               (Json 200
                  (ContentDoc (uploaded_message k) (docId (gen req)) (upload_doc k (req_body req) f)),
                s2)))"

text \<open>\<^verbatim>\<open>src/backend/server.js\<close>: the same three routes over the disk engine.\<close>

definition backend_upload_doc :: "form \<Rightarrow> req_file \<Rightarrow> content" where
  "backend_upload_doc b f =
     form.extend b
       (content.fields (rf_filename f) (rf_originalname f) (rf_path f) (rf_size f)
          (rf_mimetype f) None)"

definition backend_content_upload :: "server \<Rightarrow> kind \<Rightarrow> upload_req \<Rightarrow> response \<times> server" where
  "backend_content_upload s k req =
     (case multer_single disk_storage s req of
        (Inl e, s1) \<Rightarrow> (DefaultError e, s1)
      | (Inr None, s1) \<Rightarrow> (Json 400 (Message False ''No file uploaded''), s1)
      | (Inr (Some f), s1) \<Rightarrow>
          (case save_doc s1 k (docId (gen req)) (backend_upload_doc (req_body req) f) of
             Inl e \<Rightarrow> (Json 500 (Error500 (errMessage e)), s1)
           | Inr s2 \<Rightarrow>
               (Json 200
                  (ContentDoc (uploaded_message k) (docId (gen req))
                     (backend_upload_doc (req_body req) f)),
                s2)))"

text \<open>
  \<^verbatim>\<open>POST /api/materials\<close>, \<^verbatim>\<open>/api/questions\<close>, \<^verbatim>\<open>/api/updates\<close> of
  \<^verbatim>\<open>src/server.js\<close>: \<^verbatim>\<open>new Material(req.body)\<close> takes every field of the schema from
  the JSON body as it comes.
\<close>

definition content_create :: "server \<Rightarrow> kind \<Rightarrow> objid \<Rightarrow> content \<Rightarrow> response \<times> server" where
  "content_create s k i c =
     (case save_doc s k i c of
        Inl e \<Rightarrow> (Json 500 (Error500 (errMessage e)), s)
      | Inr s' \<Rightarrow> (Json 200 (ContentData i c), s'))"

subsection \<open>Delete\<close>

text \<open>\<^verbatim>\<open>deleteGridFSFileById\<close>: the two \<^verbatim>\<open>console.warn\<close> lines are its only report.\<close>

definition deleteGridFSFileById :: "server \<Rightarrow> objid option \<Rightarrow> server" where
  "deleteGridFSFileById s fileObjectId =
     (case fileObjectId of
        None \<Rightarrow> s
      | Some f \<Rightarrow>
          if \<not> gfsBucket s then s
          else (case gridfs_delete s f of Inl err \<Rightarrow> s | Inr s' \<Rightarrow> s'))"

fun content_not_found :: "kind \<Rightarrow> string" where
  "content_not_found Material = ''Material not found''"
| "content_not_found Question = ''Question not found''"
| "content_not_found Update = ''Update not found''"

fun deleted_message :: "kind \<Rightarrow> string" where
  "deleted_message Material = ''Material deleted successfully''"
| "deleted_message Question = ''Question deleted successfully''"
| "deleted_message Update = ''Update deleted successfully''"

text \<open>
  \<^verbatim>\<open>src/server.js\<close>, \<^verbatim>\<open>DELETE /api/materials/:id\<close> (and questions, updates): the
  \<^verbatim>\<open>unlinkSync\<close> of the legacy branch sits in its own \<^verbatim>\<open>try { } catch(e){/* ignore */ }\<close>.
\<close>

definition remove_blob :: "server \<Rightarrow> content \<Rightarrow> server" where
  "remove_blob s c =
     (if fileId c \<noteq> None then deleteGridFSFileById s (fileId c)
      else if truthy (filePath c) \<and> existsSync s (the (filePath c))
      then (case unlinkSync s (the (filePath c)) of Inl e \<Rightarrow> s | Inr s' \<Rightarrow> s')
      else s)"

definition content_delete :: "server \<Rightarrow> kind \<Rightarrow> objid \<Rightarrow> response \<times> server" where
  "content_delete s k i =
     (case findById s k i of
        Inl e \<Rightarrow> (Json 500 (Error500 (errMessage e)), s)
      | Inr None \<Rightarrow> (Json 404 (Message False (content_not_found k)), s)
      | Inr (Some c) \<Rightarrow>
          (case findByIdAndDelete (remove_blob s c) k i of
             Inl e \<Rightarrow> (Json 500 (Error500 (errMessage e)), remove_blob s c)
           | Inr s2 \<Rightarrow> (Json 200 (Message True (deleted_message k)), s2)))"

text \<open>
  \<^verbatim>\<open>src/backend/server.js\<close>, the same routes: \<^verbatim>\<open>fs.unlinkSync(material.filePath)\<close>
  stands directly in the handler's \<^verbatim>\<open>try\<close>, so its error reaches the handler's
  \<^verbatim>\<open>catch\<close> before \<^verbatim>\<open>findByIdAndDelete\<close> is called.
\<close>

definition backend_content_delete :: "server \<Rightarrow> kind \<Rightarrow> objid \<Rightarrow> response \<times> server" where
  "backend_content_delete s k i =
     (case findById s k i of
        Inl e \<Rightarrow> (Json 500 (Error500 (errMessage e)), s)
      | Inr None \<Rightarrow> (Json 404 (Message False (content_not_found k)), s)
      | Inr (Some c) \<Rightarrow>
          (case (if truthy (filePath c) \<and> existsSync s (the (filePath c))
                 then unlinkSync s (the (filePath c)) else Inr s) of
             Inl e \<Rightarrow> (Json 500 (Error500 (errMessage e)), s)
           | Inr s1 \<Rightarrow>
               (case findByIdAndDelete s1 k i of
                  Inl e \<Rightarrow> (Json 500 (Error500 (errMessage e)), s1)
                | Inr s2 \<Rightarrow> (Json 200 (Message True (deleted_message k)), s2))))"

subsection \<open>Notions of the specification\<close>

text \<open>
  The record an id stands for, in the spec's words: the three kinds are tried in the
  order materials, question banks, updates, and the first that holds the id wins.
\<close>

definition first_match :: "server \<Rightarrow> objid \<Rightarrow> content option" where
  "first_match s i =
     (case filter (\<lambda>k. contents s k i \<noteq> None) [Material, Question, Update] of
        [] \<Rightarrow> None
      | k # ks \<Rightarrow> contents s k i)"

text \<open>
  The records of a batch that carry a \<open>userId\<close> already present when their turn comes
  (in the collection before the request, or stored earlier in the same batch), and the
  others. \<open>seen\<close> is the list of the values the unique index holds.
\<close>

fun collisions :: "string option list \<Rightarrow> person list \<Rightarrow> person list" where
  "collisions seen [] = []"
| "collisions seen (d # ds) =
     (if userId d \<in> set seen then d # collisions seen ds
      else collisions (seen @ [userId d]) ds)"

fun admitted :: "string option list \<Rightarrow> person list \<Rightarrow> person list" where
  "admitted seen [] = []"
| "admitted seen (d # ds) =
     (if userId d \<in> set seen then admitted seen ds
      else d # admitted (seen @ [userId d]) ds)"

text \<open>A record whose save fails for a reason other than the unique index.\<close>

definition dropped :: "server \<Rightarrow> role \<Rightarrow> person \<Rightarrow> bool" where
  "dropped s r d =
     (case fault s (SavePerson r d) of None \<Rightarrow> False | Some e \<Rightarrow> errCode e \<noteq> NumCode 11000)"

text \<open>
  The exclusivity of the two file references of the GridFS server's schema: a record
  does not carry a blob id and a file path at once.
\<close>

definition exclusive :: "content \<Rightarrow> bool" where
  "exclusive c = (\<not> (fileId c \<noteq> None \<and> truthy (filePath c)))"

definition all_exclusive :: "server \<Rightarrow> bool" where
  "all_exclusive s = (\<forall>k. \<forall>c\<in>ran (contents s k). exclusive c)"

subsection \<open>Example states\<close>

definition srv0 :: server where
  "srv0 = \<lparr>contents = (\<lambda>k. Map.empty), people = (\<lambda>r. []), bucket = Map.empty,
     gfsBucket = True, fs = Map.empty, uploadsPath = (\<lambda>n. ''uploads/'' @ n),
     extname = (\<lambda>n. []), fault = (\<lambda>c. None)\<rparr>"

definition ann :: person where
  "ann = \<lparr>userId = Some ''s1'', profile = [(''name'', ''Ann'')]\<rparr>"

definition bob :: person where
  "bob = \<lparr>userId = Some ''s2'', profile = [(''name'', ''Bob'')]\<rparr>"

definition srv_ann :: server where
  "srv_ann = srv0\<lparr>people := (\<lambda>r. if r = Student then [ann] else [])\<rparr>"

definition srv_refusing :: server where
  "srv_refusing =
     srv0\<lparr>fault := (\<lambda>c. if c = SavePerson Student bob
                        then Some (JsError NoCode ''Student validation failed'') else None)\<rparr>"

definition no_file :: content where
  "no_file = \<lparr>title = Some ''Week1'', description = None, year = None, department = None,
     createdBy = None, fileName = None, originalFileName = None, filePath = None,
     fileSize = None, fileType = None, fileId = None\<rparr>"

definition lecture :: content where
  "lecture = \<lparr>title = Some ''Week2'', description = None, year = None, department = None,
     createdBy = None, fileName = Some ''17-42-notes.txt'', originalFileName = Some ''notes.txt'',
     filePath = None, fileSize = Some 3, fileType = Some ''text/plain'', fileId = Some 5\<rparr>"

definition srv_two :: server where
  "srv_two =
     srv0\<lparr>contents := (\<lambda>k. if k = Question then [7 \<mapsto> no_file]
                           else if k = Update then [7 \<mapsto> lecture] else Map.empty),
           bucket := [5 \<mapsto> [1, 2, 3]]\<rparr>"

definition no_part :: upload_req where
  "no_part = \<lparr>req_part = None,
     req_body = \<lparr>title = Some ''Week1'', description = None, year = None, department = None,
                  createdBy = None\<rparr>,
     gen = \<lparr>uniq = ''17-42'', gridId = 5, docId = 1\<rparr>\<rparr>"

definition legacy_doc :: content where
  "legacy_doc = \<lparr>title = Some ''Week0'', description = None, year = None, department = None,
     createdBy = None, fileName = Some ''a.pdf'', originalFileName = None, filePath = None,
     fileSize = None, fileType = None, fileId = None\<rparr>"

definition srv_legacy :: server where
  "srv_legacy =
     srv0\<lparr>contents := (\<lambda>k. if k = Material then [1 \<mapsto> legacy_doc] else Map.empty),
           fs := [''uploads/a.pdf'' \<mapsto> File [1, 2, 3]]\<rparr>"

definition disk_doc :: content where
  "disk_doc = \<lparr>title = Some ''Week3'', description = None, year = None, department = None,
     createdBy = None, fileName = Some ''17-42.pdf'', originalFileName = Some ''notes.pdf'',
     filePath = Some ''uploads/17-42.pdf'', fileSize = Some 3, fileType = Some ''application/pdf'',
     fileId = None\<rparr>"

definition srv_locked :: server where
  "srv_locked =
     srv0\<lparr>contents := (\<lambda>k. if k = Material then [1 \<mapsto> disk_doc] else Map.empty),
           fs := [''uploads/17-42.pdf'' \<mapsto> File [1, 2, 3]],
           fault := (\<lambda>c. if c = FsUnlink ''uploads/17-42.pdf''
                          then Some (JsError (StrCode ''EACCES'') ''EACCES: permission denied, unlink'')
                          else None)\<rparr>"

definition both_doc :: content where
  "both_doc = lecture\<lparr>filePath := Some ''uploads/old-notes.txt''\<rparr>"

definition exe_part :: file_part where
  "exe_part = \<lparr>part_originalname = ''setup.exe'', part_mimetype = ''application/octet-stream'',
     part_data = [1, 2, 3]\<rparr>"

definition notes_part :: file_part where
  "notes_part = \<lparr>part_originalname = ''Notes.PDF'', part_mimetype = ''application/pdf'',
     part_data = [1, 2, 3]\<rparr>"

definition notes_req :: upload_req where
  "notes_req = no_part\<lparr>req_part := Some notes_part\<rparr>"

definition exe_req :: upload_req where
  "exe_req = no_part\<lparr>req_part := Some exe_part\<rparr>"


text \<open>An upload of \<^verbatim>\<open>Notes.PDF\<close> whose new ids (6 for the blob, 2 for the document) are unused.\<close>

definition second_notes_req :: upload_req where
  "second_notes_req = notes_req\<lparr>gen := \<lparr>uniq = ''17-43'', gridId = 6, docId = 2\<rparr>\<rparr>"

definition uploaded_notes :: content where
  "uploaded_notes = \<lparr>title = Some ''Week1'', description = None, year = None, department = None,
     createdBy = None, fileName = Some ''17-43-Notes.PDF'', originalFileName = Some ''Notes.PDF'',
     filePath = None, fileSize = Some 3, fileType = Some ''application/pdf'', fileId = Some 6\<rparr>"

section \<open>Retrieval\<close>

lemma resolve_first_match:
  assumes "\<forall>k. fault s (Find k i) = None"
  shows "resolve s i = Inr (first_match s i)"
  using assms by (auto simp: resolve_def findById_def first_match_def split: option.splits)

text \<open>
  A lookup that throws, as \<^verbatim>\<open>findById\<close> does on an id it cannot cast, ends in the
  \<^verbatim>\<open>catch\<close> of the handler, whatever the collections hold.
\<close>

lemma retrieval_lookup_throws:
  assumes "fault s (Find Material i) = Some e"
  shows "files_download s i = Json 500 (Error500 (errMessage e))
       \<and> files_view s i = Json 500 (Error500 (errMessage e))
       \<and> backend_files_download s i = Json 500 (Error500 (errMessage e))
       \<and> backend_files_view s i = Json 500 (Error500 (errMessage e))"
  using assms
  by (simp add: files_download_def files_view_def backend_files_download_def
      backend_files_view_def resolve_def findById_def)




text \<open>
  Claim C2, as amended. For a content record with no blob id and no file path, found by
  the lookups: the GridFS server answers download and view with 404
  \<^verbatim>\<open>File not found on server\<close>; the disk server answers both with 404 when the record
  has no stored file name (\<^verbatim>\<open>No file attached to this content\<close>) or when no file of
  that name exists under the uploads directory (\<^verbatim>\<open>File not found on server\<close>). None of
  these answers is a 200 with a stream.
\<close>

theorem no_file_reference_not_found:
  assumes "\<forall>k. fault s (Find k i) = None" and "first_match s i = Some c"
    and "fileId c = None" and "\<not> truthy (filePath c)"
  shows "files_download s i = Json 404 (Message False ''File not found on server'')
       \<and> files_view s i = Json 404 (Message False ''File not found on server'')
       \<and> (\<not> truthy (fileName c) \<longrightarrow>
            backend_files_download s i = Json 404 (Message False ''No file attached to this content'')
          \<and> backend_files_view s i = Json 404 (Message False ''No file attached to this content''))
       \<and> (truthy (fileName c) \<and> \<not> existsSync s (uploadsPath s (the (fileName c))) \<longrightarrow>
            backend_files_download s i = Json 404 (Message False ''File not found on server'')
          \<and> backend_files_view s i = Json 404 (Message False ''File not found on server''))"
  using assms
  by (simp add: files_download_def files_view_def backend_files_download_def
      backend_files_view_def resolve_first_match download_content_def view_content_def
      backend_download_content_def backend_view_content_def backend_path_def)

theorem no_file_reference_not_found_witness:
  "files_download srv_two 7 = Json 404 (Message False ''File not found on server'')
   \<and> backend_files_view srv_two 7 = Json 404 (Message False ''No file attached to this content'')"
  using no_file_reference_not_found[of srv_two 7 no_file]
  by (simp add: first_match_def srv_two_def srv0_def no_file_def truthy_def)

text \<open>
  The claim as stated fails in the disk server: a record with a stored file name and
  neither id nor path is looked up under the uploads directory, and served from there.
\<close>

theorem no_file_reference_counterexample:
  "contents srv_legacy Material 1 = Some legacy_doc
   \<and> fileId legacy_doc = None \<and> filePath legacy_doc = None
   \<and> backend_files_download srv_legacy 1 = Download ''uploads/a.pdf'' (Some ''a.pdf'') [1, 2, 3]
   \<and> status (backend_files_download srv_legacy 1) = Some 200
   \<and> status (backend_files_view srv_legacy 1) = Some 200"
  by (simp add: backend_files_download_def backend_files_view_def resolve_def findById_def
      backend_download_content_def backend_view_content_def backend_path_def existsSync_def
      isFile_def readFile_def js_or_def truthy_def srv_legacy_def srv0_def legacy_doc_def)

section \<open>Person records\<close>

text \<open>
  Claim C6. A single insert whose \<open>userId\<close> is already held by the unique index is
  answered with status 200, \<^verbatim>\<open>success: false\<close> and the duplicate message, and nothing is
  stored; the save is assumed to reach the index (the environment does not refuse it
  for another reason first).
\<close>

theorem single_insert_duplicate_soft_failure:
  assumes "userId p \<in> userId ` set (people s r)"
    and "fault s (SavePerson r p) = None"
  shows "person_post s r p = (Json 200 (Message False (exists_message r)), s)"
  using assms by (simp add: person_post_def save_person_def duplicate_key_def)

theorem single_insert_duplicate_soft_failure_witness:
  "userId ann \<in> userId ` set (people srv_ann Student)
   \<and> person_post srv_ann Student ann = (Json 200 (Message False ''Student ID already exists''), srv_ann)"
  using single_insert_duplicate_soft_failure[of ann srv_ann Student]
  by (simp add: srv_ann_def srv0_def)

lemma remove_first_length:
  "\<exists>x\<in>set xs. P x \<Longrightarrow> Suc (length (remove_first P xs)) = length xs"
  by (induction xs) auto

lemma remove_first_distinct:
  "distinct (map f xs) \<Longrightarrow> v \<notin> f ` set (remove_first (\<lambda>x. f x = v) xs)"
  by (induction xs) auto

text \<open>
  Claim C10. Deleting one person by a \<open>userId\<close> (a non-empty query parameter; the
  database answers the call): when no record has it, the answer is status 200 with
  \<^verbatim>\<open>success: false\<close> and the role's not-found message, and the state is unchanged;
  when a record has it, the first such record is removed and the answer is status 200
  with \<^verbatim>\<open>deletedCount\<close> 1. Where the stored ids are distinct, as the unique index
  keeps them, the id is gone afterwards.
\<close>

theorem delete_individual_outcomes:
  assumes "truthy q" and "fault s (DeleteOne r (the q)) = None"
  shows "(q \<notin> userId ` set (people s r) \<longrightarrow>
            person_delete_individual s r q = (Json 200 (Message False (person_not_found r)), s))
       \<and> (q \<in> userId ` set (people s r) \<longrightarrow>
            (\<exists>s'. person_delete_individual s r q = (Json 200 (DeletedCount 1), s')
              \<and> people s' r = remove_first (\<lambda>p. userId p = q) (people s r)
              \<and> Suc (length (people s' r)) = length (people s r)
              \<and> (distinct (map userId (people s r)) \<longrightarrow> q \<notin> userId ` set (people s' r))))"
proof (intro conjI impI)
  from assms(1) obtain u where q: "q = Some u" by (cases q) (auto simp: truthy_def)
  {
    assume "q \<notin> userId ` set (people s r)"
    then show "person_delete_individual s r q = (Json 200 (Message False (person_not_found r)), s)"
      using assms by (simp add: q person_delete_individual_def deleteOne_def)
  }
  {
    assume present: "q \<in> userId ` set (people s r)"
    let ?s' = "s\<lparr>people := (people s)(r := remove_first (\<lambda>p. userId p = q) (people s r))\<rparr>"
    have run: "person_delete_individual s r q = (Json 200 (DeletedCount 1), ?s')"
      using assms present by (simp add: q person_delete_individual_def deleteOne_def)
    have ex: "\<exists>x\<in>set (people s r). userId x = q" using present by auto
    have len: "Suc (length (people ?s' r)) = length (people s r)"
      using remove_first_length[OF ex] by simp
    have gone: "distinct (map userId (people s r)) \<longrightarrow> q \<notin> userId ` set (people ?s' r)"
      using remove_first_distinct[of userId "people s r" q] by simp
    show "\<exists>s'. person_delete_individual s r q = (Json 200 (DeletedCount 1), s')
              \<and> people s' r = remove_first (\<lambda>p. userId p = q) (people s r)
              \<and> Suc (length (people s' r)) = length (people s r)
              \<and> (distinct (map userId (people s r)) \<longrightarrow> q \<notin> userId ` set (people s' r))"
      using run len gone by (intro exI[of _ ?s']) simp
  }
qed

theorem delete_individual_outcomes_witness:
  "person_delete_individual srv_ann Student (Some ''zz'')
     = (Json 200 (Message False ''Student not found''), srv_ann)
   \<and> fst (person_delete_individual srv_ann Student (Some ''s1'')) = Json 200 (DeletedCount 1)
   \<and> people (snd (person_delete_individual srv_ann Student (Some ''s1''))) Student = []"
  using delete_individual_outcomes[of "Some ''zz''" srv_ann Student]
    delete_individual_outcomes[of "Some ''s1''" srv_ann Student]
  by (auto simp: truthy_def srv_ann_def srv0_def ann_def)

lemma save_person_fault: "save_person s r p = Inr s' \<Longrightarrow> fault s' = fault s"
  by (auto simp: save_person_def split: option.splits if_splits)

lemma split_length: "length (admitted seen ds) + length (collisions seen ds) = length ds"
  by (induction ds arbitrary: seen) auto

lemma bulk_loop_exact:
  assumes "\<forall>d\<in>set ds. fault s (SavePerson r d) = None"
  shows "bulk_loop s r ds (res, dups, n) =
           ((res @ admitted (map userId (people s r)) ds,
             dups @ map userId (collisions (map userId (people s r)) ds),
             n + length (admitted (map userId (people s r)) ds)),
            s\<lparr>people := (people s)(r := people s r @ admitted (map userId (people s r)) ds)\<rparr>)"
  using assms
proof (induction ds arbitrary: s res dups n)
  case Nil
  then show ?case by simp
next
  case (Cons d ds)
  show ?case
  proof (cases "userId d \<in> userId ` set (people s r)")
    case True
    then have "save_person s r d = Inl duplicate_key"
      using Cons.prems by (simp add: save_person_def)
    then show ?thesis
      using True Cons.IH[of s res "dups @ [userId d]" n] Cons.prems
      by (simp add: duplicate_key_def)
  next
    case False
    let ?s' = "s\<lparr>people := (people s)(r := people s r @ [d])\<rparr>"
    have sv: "save_person s r d = Inr ?s'"
      using False Cons.prems by (simp add: save_person_def)
    have "\<forall>d\<in>set ds. fault ?s' (SavePerson r d) = None" using Cons.prems by simp
    from Cons.IH[OF this, of "res @ [d]" dups "n + 1"]
    have run: "bulk_loop ?s' r ds (res @ [d], dups, n + 1) =
           (((res @ [d]) @ admitted (map userId (people ?s' r)) ds,
             dups @ map userId (collisions (map userId (people ?s' r)) ds),
             (n + 1) + length (admitted (map userId (people ?s' r)) ds)),
            ?s'\<lparr>people := (people ?s')(r := people ?s' r @ admitted (map userId (people ?s' r)) ds)\<rparr>)" .
    have st: "?s'\<lparr>people := (people ?s')(r := people ?s' r @ A)\<rparr>
            = s\<lparr>people := (people s)(r := people s r @ d # A)\<rparr>" for A
      by (rule server.equality) (simp_all add: fun_eq_iff)
    have ids: "map userId (people ?s' r) = map userId (people s r) @ [userId d]" by simp
    have nin: "userId d \<notin> set (map userId (people s r))" using False by simp
    show ?thesis
      unfolding bulk_loop.simps sv sum.case run st ids
      using nin by (simp del: set_map add: fun_upd_def)
  qed
qed

text \<open>
  Claim C5, as amended. In a bulk insert of N records none of whose saves fails for a
  reason other than the unique index, with K of them carrying a \<open>userId\<close> already
  present at their turn: the answer is status 200 with \<^verbatim>\<open>addedCount\<close> N - K, the K
  colliding ids as \<^verbatim>\<open>duplicates\<close> and the other N - K records as \<^verbatim>\<open>data\<close>, and exactly
  those N - K records are appended to the collection. A collision does not stop the loop.
\<close>

theorem bulk_insert_counts:
  assumes "\<forall>d\<in>set ds. fault s (SavePerson r d) = None"
  shows "person_bulk s r (Some ds) =
           (Json 200
              (Bulk (length ds - length (collisions (map userId (people s r)) ds))
                 (map userId (collisions (map userId (people s r)) ds))
                 (admitted (map userId (people s r)) ds)),
            s\<lparr>people := (people s)(r := people s r @ admitted (map userId (people s r)) ds)\<rparr>)
       \<and> length (admitted (map userId (people s r)) ds)
           = length ds - length (collisions (map userId (people s r)) ds)"
proof -
  have "length (admitted (map userId (people s r)) ds)
      = length ds - length (collisions (map userId (people s r)) ds)"
    using split_length[of "map userId (people s r)" ds] by simp
  then show ?thesis
    by (simp add: person_bulk_def bulk_loop_exact[OF assms])
qed

text \<open>Ann is stored already; the batch Ann, Bob, Bob adds one record and reports two duplicates.\<close>

theorem bulk_insert_counts_witness:
  "fst (person_bulk srv_ann Student (Some [ann, bob, bob]))
     = Json 200 (Bulk 1 [Some ''s1'', Some ''s2''] [bob])
   \<and> people (snd (person_bulk srv_ann Student (Some [ann, bob, bob]))) Student = [ann, bob]"
  using bulk_insert_counts[of "[ann, bob, bob]" srv_ann Student]
  by (simp add: srv_ann_def srv0_def ann_def bob_def)

text \<open>
  The claim as stated fails where a save fails for another reason: the collection is
  empty and the two ids of the batch differ, so N = 2 and K = 0, yet \<^verbatim>\<open>addedCount\<close> is 1.
\<close>

theorem bulk_insert_counts_counterexample:
  "people srv_refusing Student = []
   \<and> distinct (map userId [ann, bob])
   \<and> person_bulk srv_refusing Student (Some [ann, bob])
       = (Json 200 (Bulk 1 [] [ann]), srv_refusing\<lparr>people := (people srv_refusing)(Student := [ann])\<rparr>)
   \<and> (1::nat) \<noteq> length [ann, bob] - 0"
  by (simp add: person_bulk_def save_person_def srv_refusing_def srv0_def ann_def bob_def)

lemma bulk_loop_account:
  "bulk_loop s r ds (res, dups, n) = ((res', dups', n'), s') \<Longrightarrow>
     n' + length dups' + length (filter (dropped s r) ds) = n + length dups + length ds
     \<and> n' - n = length res' - length res \<and> n \<le> n' \<and> length res \<le> length res'
     \<and> set res' \<subseteq> set res \<union> {d \<in> set ds. \<not> dropped s r d}"
proof (induction ds arbitrary: s res dups n)
  case Nil
  then show ?case by simp
next
  case (Cons d ds)
  show ?case
  proof (cases "save_person s r d")
    case (Inr s1)
    then have nd: "\<not> dropped s r d"
      by (auto simp: dropped_def save_person_def split: option.splits if_splits)
    have same: "dropped s1 r = dropped s r"
      using save_person_fault[OF Inr] by (simp add: dropped_def fun_eq_iff)
    from Cons.prems Inr have "bulk_loop s1 r ds (res @ [d], dups, n + 1) = ((res', dups', n'), s')"
      by simp
    from Cons.IH[OF this] nd same show ?thesis by auto
  next
    case (Inl e)
    show ?thesis
    proof (cases "errCode e = NumCode 11000")
      case True
      then have nd: "\<not> dropped s r d"
        using Inl by (auto simp: dropped_def save_person_def split: option.splits if_splits)
      from Cons.prems Inl True have "bulk_loop s r ds (res, dups @ [userId d], n) = ((res', dups', n'), s')"
        by simp
      from Cons.IH[OF this] nd show ?thesis by auto
    next
      case False
      then have dr: "dropped s r d"
        using Inl by (auto simp: dropped_def save_person_def duplicate_key_def split: option.splits if_splits)
      from Cons.prems Inl False have "bulk_loop s r ds (res, dups, n) = ((res', dups', n'), s')"
        by simp
      from Cons.IH[OF this] dr show ?thesis by auto
    qed
  qed
qed

text \<open>
  Claim C9. In a bulk insert every record whose save fails for a reason other than the
  unique index is dropped in silence: the answer is still status 200 with
  \<^verbatim>\<open>success: true\<close>, no dropped record is in \<^verbatim>\<open>data\<close>, and \<^verbatim>\<open>addedCount\<close> plus the
  length of \<^verbatim>\<open>duplicates\<close> plus the number of dropped records is the number submitted,
  so the first two fall short of it as soon as one record is dropped.
\<close>

theorem bulk_insert_silent_drop:
  "\<exists>n dups res s'.
      person_bulk s r (Some ds) = (Json 200 (Bulk n dups res), s')
    \<and> success (Bulk n dups res)
    \<and> n = length res
    \<and> (\<forall>d\<in>set res. \<not> dropped s r d)
    \<and> n + length dups + length (filter (dropped s r) ds) = length ds"
proof -
  obtain res dups n s' where run: "bulk_loop s r ds ([], [], 0) = ((res, dups, n), s')"
    by (metis prod_cases3 surj_pair)
  from bulk_loop_account[OF run] have
    "n + length dups + length (filter (dropped s r) ds) = length ds"
    "n = length res" "\<forall>d\<in>set res. \<not> dropped s r d"
    by auto
  then show ?thesis
    using run by (simp add: person_bulk_def)
qed

text \<open>Bob's save is refused by validation: one record added, no duplicate, two submitted.\<close>

theorem bulk_insert_silent_drop_witness:
  "\<exists>n dups res s'.
      person_bulk srv_refusing Student (Some [ann, bob]) = (Json 200 (Bulk n dups res), s')
    \<and> bob \<notin> set res
    \<and> n + length dups < length [ann, bob]"
proof -
  have d: "dropped srv_refusing Student bob"
    by (simp add: dropped_def srv_refusing_def)
  have nd: "\<not> dropped srv_refusing Student ann"
    by (simp add: dropped_def srv_refusing_def ann_def bob_def)
  from bulk_insert_silent_drop[of srv_refusing Student "[ann, bob]"]
  obtain n dups res s' where
    run: "person_bulk srv_refusing Student (Some [ann, bob]) = (Json 200 (Bulk n dups res), s')"
    and kept: "\<forall>d\<in>set res. \<not> dropped srv_refusing Student d"
    and acc: "n + length dups + length (filter (dropped srv_refusing Student) [ann, bob])
                = length [ann, bob]"
    by blast
  have "bob \<notin> set res" using kept d by blast
  moreover have "n + length dups < length [ann, bob]" using acc d nd by simp
  ultimately show ?thesis using run by blast
qed

section \<open>Upload\<close>

text \<open>
  Claim C7. An upload request without a file part is answered with status 400,
  \<^verbatim>\<open>success: false\<close> and \<^verbatim>\<open>No file uploaded\<close> by both servers and for every kind,
  and the state (bucket, disk, collections) is the one before the request.
\<close>

theorem upload_without_file:
  assumes "req_part req = None"
  shows "content_upload s k req = (Json 400 (Message False ''No file uploaded''), s)
       \<and> backend_content_upload s k req = (Json 400 (Message False ''No file uploaded''), s)"
  using assms by (simp add: content_upload_def backend_content_upload_def multer_single_def)

theorem upload_without_file_witness:
  "req_part no_part = None
   \<and> content_upload srv0 Material no_part = (Json 400 (Message False ''No file uploaded''), srv0)
   \<and> backend_content_upload srv0 Update no_part = (Json 400 (Message False ''No file uploaded''), srv0)"
  using upload_without_file[of no_part srv0 Material] upload_without_file[of no_part srv0 Update]
  by (simp add: no_part_def)

lemma ascii_lower_dot: "ascii_lower c = CHR ''.'' \<longleftrightarrow> c = CHR ''.''"
proof (cases "65 \<le> (of_char c :: nat) \<and> (of_char c :: nat) \<le> 90")
  case True
  have "char_of (of_char c + 32 :: nat) \<noteq> CHR ''.''"
  proof
    assume "char_of (of_char c + 32 :: nat) = CHR ''.''"
    then have "(of_char (char_of (of_char c + 32 :: nat)) :: nat) = of_char CHR ''.''"
      by simp
    then have "(of_char c + 32 :: nat) mod 256 = 46" by simp
    with True show False by simp
  qed
  moreover have "c \<noteq> CHR ''.''" using True by auto
  ultimately show ?thesis using True by (simp add: ascii_lower_def)
next
  case False
  then show ?thesis by (auto simp add: ascii_lower_def Let_def)
qed

lemma endsWith_iff: "endsWith xs ys \<longleftrightarrow> (\<exists>pre. xs = pre @ ys)"
proof
  assume "endsWith xs ys"
  then have "xs = take (length xs - length ys) xs @ ys"
    by (metis append_take_drop_id endsWith_def)
  then show "\<exists>pre. xs = pre @ ys" ..
next
  assume "\<exists>pre. xs = pre @ ys"
  then show "endsWith xs ys" by (auto simp: endsWith_def)
qed

lemma takeWhile_stop:
  "\<forall>x\<in>set xs. P x \<Longrightarrow> \<not> P y \<Longrightarrow> takeWhile P (xs @ y # ys) = xs"
  by (induction xs) auto

lemma after_last_dot:
  assumes "CHR ''.'' \<notin> set e"
  shows "(\<exists>pre. xs = pre @ CHR ''.'' # e)
     \<longleftrightarrow> (CHR ''.'' \<in> set xs \<and> rev (takeWhile (\<lambda>c. c \<noteq> CHR ''.'') (rev xs)) = e)"
proof
  assume "\<exists>pre. xs = pre @ CHR ''.'' # e"
  then obtain pre where xs: "xs = pre @ CHR ''.'' # e" ..
  have "takeWhile (\<lambda>c. c \<noteq> CHR ''.'') (rev e @ CHR ''.'' # rev pre) = rev e"
    by (rule takeWhile_stop) (use assms in auto)
  then show "CHR ''.'' \<in> set xs \<and> rev (takeWhile (\<lambda>c. c \<noteq> CHR ''.'') (rev xs)) = e"
    by (simp add: xs)
next
  assume a: "CHR ''.'' \<in> set xs \<and> rev (takeWhile (\<lambda>c. c \<noteq> CHR ''.'') (rev xs)) = e"
  let ?P = "\<lambda>c. c \<noteq> CHR ''.''"
  have "dropWhile ?P (rev xs) \<noteq> []" using a by (simp add: dropWhile_eq_Nil_conv)
  then obtain z zs where dz: "dropWhile ?P (rev xs) = z # zs"
    by (cases "dropWhile ?P (rev xs)") auto
  have "\<not> ?P (hd (dropWhile ?P (rev xs)))"
    using \<open>dropWhile ?P (rev xs) \<noteq> []\<close> by (rule hd_dropWhile)
  then have z: "z = CHR ''.''" using dz by simp
  have "rev xs = takeWhile ?P (rev xs) @ dropWhile ?P (rev xs)" by simp
  then have "rev (rev xs) = rev (takeWhile ?P (rev xs) @ dropWhile ?P (rev xs))" by simp
  then have "xs = rev (dropWhile ?P (rev xs)) @ rev (takeWhile ?P (rev xs))"
    by (simp only: rev_rev_ident rev_append)
  then have "xs = rev zs @ CHR ''.'' # e" using a dz z by simp
  then show "\<exists>pre. xs = pre @ CHR ''.'' # e" ..
qed

lemma extensions_no_dot: "e \<in> set extensions \<Longrightarrow> CHR ''.'' \<notin> set e"
  by (auto simp: extensions_def)

lemma lower_after_dot:
  "map ascii_lower (rev (takeWhile (\<lambda>c. c \<noteq> CHR ''.'') (rev name)))
     = rev (takeWhile (\<lambda>c. c \<noteq> CHR ''.'') (rev (map ascii_lower name)))"
proof -
  have "(\<lambda>c. c \<noteq> CHR ''.'') \<circ> ascii_lower = (\<lambda>c. c \<noteq> CHR ''.'')"
    by (simp add: fun_eq_iff ascii_lower_dot)
  then show ?thesis
    by (simp add: rev_map takeWhile_map)
qed

lemma dot_ascii_lower: "CHR ''.'' = ascii_lower c \<longleftrightarrow> c = CHR ''.''"
  using ascii_lower_dot[of c] by (simp add: eq_commute)

lemma lower_has_dot: "CHR ''.'' \<in> set (map ascii_lower name) \<longleftrightarrow> CHR ''.'' \<in> set name"
  by (induction name) (auto simp: ascii_lower_dot dot_ascii_lower)

lemma allowedTypes_spec: "allowedTypes name = spec_allowed name"
proof -
  let ?L = "map ascii_lower name"
  let ?after = "rev (takeWhile (\<lambda>c. c \<noteq> CHR ''.'') (rev ?L))"
  have "allowedTypes name \<longleftrightarrow> (\<exists>e\<in>set extensions. \<exists>pre. ?L = pre @ CHR ''.'' # e)"
    by (simp add: allowedTypes_def list_ex_iff endsWith_iff)
  also have "\<dots> \<longleftrightarrow> (\<exists>e\<in>set extensions. CHR ''.'' \<in> set ?L \<and> ?after = e)"
    by (rule bex_cong[OF refl]) (rule after_last_dot[OF extensions_no_dot])
  also have "\<dots> \<longleftrightarrow> (CHR ''.'' \<in> set name \<and> ?after \<in> set extensions)"
    unfolding lower_has_dot by blast
  also have "\<dots> \<longleftrightarrow> spec_allowed name"
    by (simp add: spec_allowed_def extension_def lower_after_dot)
  finally show ?thesis by simp
qed


lemma accepted_upload_stored:
  assumes "allowedTypes (part_originalname p)" and "length (part_data p) \<le> fileSizeLimit"
    and "req_part req = Some p"
    and "fault s (GridPut (gridId (gen req))) = None" and "bucket s (gridId (gen req)) = None"
    and "fault s (Save k (docId (gen req))) = None" and "contents s k (docId (gen req)) = None"
  shows "status (fst (content_upload s k req)) = Some 200
       \<and> bucket (snd (content_upload s k req)) (gridId (gen req)) = Some (part_data p)
       \<and> contents (snd (content_upload s k req)) k (docId (gen req)) \<noteq> None"
  using assms
  by (simp add: content_upload_def multer_single_def gridfs_storage_def save_doc_def)

lemma backend_accepted_upload_stored:
  assumes "allowedTypes (part_originalname p)" and "length (part_data p) \<le> fileSizeLimit"
    and "req_part req = Some p"
    and "fault s (FsWrite (uploadsPath s (uniq (gen req) @ extname s (part_originalname p)))) = None"
    and "fault s (Save k (docId (gen req))) = None" and "contents s k (docId (gen req)) = None"
  shows "status (fst (backend_content_upload s k req)) = Some 200
       \<and> fs (snd (backend_content_upload s k req))
            (uploadsPath s (uniq (gen req) @ extname s (part_originalname p)))
           = Some (File (part_data p))
       \<and> contents (snd (backend_content_upload s k req)) k (docId (gen req)) \<noteq> None"
  using assms
  by (simp add: backend_content_upload_def multer_single_def disk_storage_def save_doc_def Let_def)

lemma notes_allowed: "allowedTypes ''Notes.PDF''"
  by code_simp

lemma exe_refused: "\<not> allowedTypes ''setup.exe''"
  by code_simp

text \<open>
  Claim C3, as amended. The filter of both servers accepts exactly the names whose
  extension, compared without regard to case, is one of pdf, doc, docx, ppt, pptx, xls,
  xlsx, txt, jpg, jpeg, png, gif, mp4, mp3, zip, rar; the ceiling is 50 MiB; a file that
  passes the filter and is no larger than the ceiling goes to the storage engine. A file
  refused by the filter or by the ceiling leaves the state as it was (no blob, no file,
  no record), and its error goes to Express's default error handler, which answers with
  status 500.
\<close>

theorem upload_gate:
  assumes "req_part req = Some p"
  shows "allowedTypes (part_originalname p) = spec_allowed (part_originalname p)
       \<and> fileSizeLimit = 52428800
       \<and> (allowedTypes (part_originalname p) \<and> length (part_data p) \<le> fileSizeLimit \<longrightarrow>
            multer_single storage s req
              = (case storage s (gen req) p of
                   Inl e \<Rightarrow> (Inl e, s)
                 | Inr (f, s') \<Rightarrow> (Inr (Some f), s')))
       \<and> (\<not> allowedTypes (part_originalname p) \<longrightarrow>
            content_upload s k req
              = (DefaultError (JsError NoCode ''Invalid file type. Please upload educational content files.''), s)
          \<and> backend_content_upload s k req
              = (DefaultError (JsError NoCode ''Invalid file type. Please upload educational content files.''), s))
       \<and> (allowedTypes (part_originalname p) \<and> fileSizeLimit < length (part_data p) \<longrightarrow>
            content_upload s k req
              = (DefaultError (JsError (StrCode ''LIMIT_FILE_SIZE'') ''File too large''), s)
          \<and> backend_content_upload s k req
              = (DefaultError (JsError (StrCode ''LIMIT_FILE_SIZE'') ''File too large''), s))"
  using assms
  by (simp add: allowedTypes_spec[symmetric] fileSizeLimit_def content_upload_def
      backend_content_upload_def multer_single_def)

theorem upload_gate_witness:
  "spec_allowed ''Notes.PDF''
   \<and> status (fst (content_upload srv0 Material notes_req)) = Some 200
   \<and> bucket (snd (content_upload srv0 Material notes_req)) 5 = Some [1, 2, 3]
   \<and> \<not> spec_allowed ''setup.exe''
   \<and> content_upload srv0 Material exe_req
       = (DefaultError (JsError NoCode ''Invalid file type. Please upload educational content files.''), srv0)
   \<and> backend_content_upload srv0 Question exe_req
       = (DefaultError (JsError NoCode ''Invalid file type. Please upload educational content files.''), srv0)"
proof -
  have n: "req_part notes_req = Some notes_part" and e: "req_part exe_req = Some exe_part"
    by (simp_all add: notes_req_def exe_req_def)
  have small: "length (part_data notes_part) \<le> fileSizeLimit"
    by (simp add: notes_part_def fileSizeLimit_def)
  have an: "allowedTypes (part_originalname notes_part)"
    using notes_allowed by (simp add: notes_part_def)
  have ae: "\<not> allowedTypes (part_originalname exe_part)"
    using exe_refused by (simp add: exe_part_def)
  have stored: "status (fst (content_upload srv0 Material notes_req)) = Some 200
       \<and> bucket (snd (content_upload srv0 Material notes_req)) (gridId (gen notes_req)) = Some (part_data notes_part)
       \<and> contents (snd (content_upload srv0 Material notes_req)) Material (docId (gen notes_req)) \<noteq> None"
    by (rule accepted_upload_stored[OF an small n]) (simp_all add: srv0_def)
  have g: "gridId (gen notes_req) = 5" "part_data notes_part = [1, 2, 3]"
    by (simp_all add: notes_req_def no_part_def notes_part_def)
  show ?thesis
    using upload_gate[OF n, of gridfs_storage srv0 Material] upload_gate[OF e, of gridfs_storage srv0 Material]
      upload_gate[OF e, of gridfs_storage srv0 Question] an ae stored g
    by (simp add: notes_part_def exe_part_def)
qed

text \<open>
  The claim as stated fails on the kind of outcome: the refusal of \<^verbatim>\<open>setup.exe\<close> is
  answered with status 500, which is no client error.
\<close>

theorem upload_gate_counterexample:
  "\<not> allowedTypes (part_originalname exe_part)
   \<and> status (fst (content_upload srv0 Material exe_req)) = Some 500
   \<and> status (fst (backend_content_upload srv0 Material exe_req)) = Some 500
   \<and> \<not> (400 \<le> (500::nat) \<and> (500::nat) < 500)"
proof -
  have ae: "\<not> allowedTypes (part_originalname exe_part)"
    using exe_refused by (simp add: exe_part_def)
  then show ?thesis
    by (simp add: content_upload_def backend_content_upload_def multer_single_def exe_req_def)
qed


section \<open>Delete\<close>

text \<open>
  The GridFS server's delete is best effort: whatever becomes of the blob, the record is
  removed and success is reported, and a later download of the id finds nothing (the id
  being held by no other kind).
\<close>

lemma remove_blob_keeps:
  "contents (remove_blob s c) = contents s \<and> fault (remove_blob s c) = fault s"
  by (auto simp: remove_blob_def deleteGridFSFileById_def gridfs_delete_def unlinkSync_def
      split: option.splits fsnode.splits sum.splits if_splits)

lemma remove_blob_removes:
  assumes "fileId c = Some f" and "gfsBucket s" and "fault s (GridDel f) = None"
  shows "bucket (remove_blob s c) f = None"
  using assms
  by (simp add: remove_blob_def deleteGridFSFileById_def gridfs_delete_def split: option.splits)

lemma content_delete_best_effort:
  assumes "contents s k i = Some c" and "fault s (Find k i) = None" and "fault s (Remove k i) = None"
  shows "fst (content_delete s k i) = Json 200 (Message True (deleted_message k))
       \<and> contents (snd (content_delete s k i)) = (contents s)(k := (contents s k)(i := None))
       \<and> fault (snd (content_delete s k i)) = fault s
       \<and> bucket (snd (content_delete s k i)) = bucket (remove_blob s c)"
  using assms remove_blob_keeps[of s c]
  by (simp add: content_delete_def findById_def findByIdAndDelete_def)

lemma content_delete_then_download:
  assumes "contents s k i = Some c" and "\<forall>k'. fault s (Find k' i) = None"
    and "fault s (Remove k i) = None" and "\<forall>k'. k' \<noteq> k \<longrightarrow> contents s k' i = None"
  shows "files_download (snd (content_delete s k i)) i = Json 404 (Message False ''File not found'')"
proof -
  let ?s' = "snd (content_delete s k i)"
  from content_delete_best_effort[OF assms(1) _ assms(3)] assms(2)
  have c: "contents ?s' = (contents s)(k := (contents s k)(i := None))" and f: "fault ?s' = fault s"
    by auto
  have "first_match ?s' i = None"
    using assms(4) by (auto simp: first_match_def c)
  moreover have "\<forall>k'. fault ?s' (Find k' i) = None" using assms(2) f by simp
  ultimately show ?thesis
    by (simp add: files_download_def resolve_first_match[of ?s' i])
qed

text \<open>
  Claim C4. The disk server does not meet it: with a file the process may not remove,
  \<^verbatim>\<open>DELETE /api/materials/1\<close> answers 500 and keeps the record, which a later download
  still serves. On the same state the GridFS server, whose \<^verbatim>\<open>unlinkSync\<close> is guarded,
  reports success and removes the record.
\<close>

theorem backend_delete_fails_on_unlink_error:
  "backend_content_delete srv_locked Material 1
     = (Json 500 (Error500 ''EACCES: permission denied, unlink''), srv_locked)
   \<and> contents srv_locked Material 1 = Some disk_doc
   \<and> status (backend_files_download srv_locked 1) = Some 200
   \<and> fst (content_delete srv_locked Material 1) = Json 200 (Message True ''Material deleted successfully'')
   \<and> contents (snd (content_delete srv_locked Material 1)) Material 1 = None"
  by (simp add: backend_content_delete_def content_delete_def remove_blob_def findById_def
      findByIdAndDelete_def unlinkSync_def existsSync_def truthy_def
      backend_files_download_def resolve_def backend_download_content_def backend_path_def
      isFile_def readFile_def srv_locked_def srv0_def disk_doc_def)


section \<open>Exclusivity of the file references\<close>

lemma multer_gridfs_keeps:
  "multer_single gridfs_storage s req = (r, s1) \<Longrightarrow> contents s1 = contents s"
  by (auto simp: multer_single_def gridfs_storage_def split: option.splits if_splits sum.splits)

lemma upload_doc_path: "filePath (upload_doc k b f) = None"
  by (simp add: upload_doc_def Let_def form.defs content.defs)

lemma all_exclusive_insert:
  "all_exclusive s \<Longrightarrow> exclusive c \<Longrightarrow>
     all_exclusive (s\<lparr>contents := (contents s)(k := (contents s k)(i \<mapsto> c))\<rparr>)"
  by (auto simp: all_exclusive_def ran_def split: if_splits)

lemma all_exclusive_same: "contents s' = contents s \<Longrightarrow> all_exclusive s' = all_exclusive s"
  by (simp add: all_exclusive_def)

lemma all_exclusive_remove:
  "all_exclusive s \<Longrightarrow>
     all_exclusive (s\<lparr>contents := (contents s)(k := (contents s k)(i := None))\<rparr>)"
  by (auto simp: all_exclusive_def ran_def split: if_splits)

lemma multer_gridfs_id:
  "multer_single gridfs_storage s req = (Inr (Some f), s1) \<Longrightarrow> rf_id f \<noteq> None"
  by (auto simp: multer_single_def gridfs_storage_def split: option.splits if_splits sum.splits)

lemma upload_doc_id: "rf_id f \<noteq> None \<Longrightarrow> fileId (upload_doc k b f) \<noteq> None"
  by (auto simp: upload_doc_def Let_def form.defs content.defs id_or_def)

lemma save_doc_result:
  "save_doc s k i c = Inr s' \<Longrightarrow>
     s' = s\<lparr>contents := (contents s)(k := (contents s k)(i \<mapsto> c))\<rparr>"
  by (auto simp: save_doc_def split: option.splits if_splits)

lemma upload_preserves:
  assumes "all_exclusive s"
  shows "all_exclusive (snd (content_upload s k req))"
proof -
  obtain r s1 where m: "multer_single gridfs_storage s req = (r, s1)" by (cases "multer_single gridfs_storage s req")
  have s1: "all_exclusive s1"
    using all_exclusive_same[OF multer_gridfs_keeps[OF m]] assms by simp
  show ?thesis
  proof (cases r)
    case (Inl e)
    then show ?thesis using m s1 by (simp add: content_upload_def)
  next
    case (Inr fo)
    show ?thesis
    proof (cases fo)
      case None
      then show ?thesis using m s1 Inr by (simp add: content_upload_def)
    next
      case (Some f)
      let ?doc = "upload_doc k (req_body req) f"
      have ex: "exclusive ?doc" by (simp add: exclusive_def upload_doc_path truthy_def)
      show ?thesis
      proof (cases "save_doc s1 k (docId (gen req)) ?doc")
        case (Inl e)
        then show ?thesis using m s1 Inr Some by (simp add: content_upload_def)
      next
        case (Inr s2)
        from save_doc_result[OF this] all_exclusive_insert[OF s1 ex]
        have "all_exclusive s2" by simp
        then show ?thesis using m \<open>r = Inr fo\<close> Some Inr by (simp add: content_upload_def)
      qed
    qed
  qed
qed

lemma delete_preserves:
  assumes "all_exclusive s"
  shows "all_exclusive (snd (content_delete s k i))"
proof (cases "findById s k i")
  case (Inl e)
  then show ?thesis using assms by (simp add: content_delete_def)
next
  case (Inr co)
  show ?thesis
  proof (cases co)
    case None
    then show ?thesis using assms Inr by (simp add: content_delete_def)
  next
    case (Some c)
    have rb: "all_exclusive (remove_blob s c)"
      using all_exclusive_same[of "remove_blob s c" s] remove_blob_keeps[of s c] assms by simp
    show ?thesis
    proof (cases "fault (remove_blob s c) (Remove k i)")
      case None
      then show ?thesis
        using Inr Some all_exclusive_remove[OF rb, of k i]
        by (simp add: content_delete_def findByIdAndDelete_def)
    next
      case (Some e)
      then show ?thesis
        using Inr \<open>co = Some c\<close> rb
        by (simp add: content_delete_def findByIdAndDelete_def)
    qed
  qed
qed

lemma upload_stores_blob_id:
  assumes "fst (content_upload s k req) = Json 200 (ContentDoc m j c)"
  shows "filePath c = None \<and> fileId c \<noteq> None
       \<and> contents (snd (content_upload s k req)) k j = Some c"
proof -
  obtain r s1 where mm: "multer_single gridfs_storage s req = (r, s1)" by (cases "multer_single gridfs_storage s req")
  from assms mm obtain f where r: "r = Inr (Some f)"
    by (cases r) (auto simp: content_upload_def split: option.splits)
  let ?doc = "upload_doc k (req_body req) f"
  from assms mm r obtain s2 where sv: "save_doc s1 k (docId (gen req)) ?doc = Inr s2"
    by (cases "save_doc s1 k (docId (gen req)) ?doc") (auto simp: content_upload_def)
  from assms mm r sv have c: "c = ?doc" and j: "j = docId (gen req)"
    by (auto simp: content_upload_def)
  have st: "snd (content_upload s k req) = s2" using mm r sv by (simp add: content_upload_def)
  have "contents s2 k j = Some c" using save_doc_result[OF sv] c j by simp
  then show ?thesis
    using upload_doc_path[of k "req_body req" f] upload_doc_id[OF multer_gridfs_id, of s req f s1]
      mm r c st by simp
qed

text \<open>The upload of \<^verbatim>\<open>Notes.PDF\<close> with unused ids, evaluated.\<close>

lemma second_notes_upload:
  "content_upload srv_two Material second_notes_req
     = (Json 200 (ContentDoc ''Material uploaded successfully'' 2 uploaded_notes),
        srv_two\<lparr>bucket := (bucket srv_two)(6 \<mapsto> [1, 2, 3]),
                contents := (contents srv_two)(Material := [2 \<mapsto> uploaded_notes])\<rparr>)"
proof -
  show ?thesis
    using notes_allowed
    by (simp add: content_upload_def multer_single_def gridfs_storage_def save_doc_def
        upload_doc_def Let_def id_or_def js_or_def or_default_def truthy_def fileSizeLimit_def
        form.defs content.defs second_notes_req_def notes_req_def no_part_def notes_part_def
        uploaded_notes_def srv_two_def srv0_def numeral_3_eq_3)
qed

text \<open>
  Claim C8, as amended. In the GridFS server, upload and delete keep every stored record
  from carrying a blob id and a file path at once, and a record stored by upload has a
  blob id and no file path. Download and view are functions of the state alone and write
  nothing. The schema itself admits both fields, and the JSON create route stores them
  as they come.
\<close>

theorem exclusivity_preserved:
  assumes "all_exclusive s"
  shows "all_exclusive (snd (content_upload s k req))
       \<and> all_exclusive (snd (content_delete s k' i))
       \<and> (\<forall>m j c. fst (content_upload s k req) = Json 200 (ContentDoc m j c) \<longrightarrow>
             filePath c = None \<and> fileId c \<noteq> None
           \<and> contents (snd (content_upload s k req)) k j = Some c)"
  using upload_preserves[OF assms] delete_preserves[OF assms] upload_stores_blob_id
  by blast

text \<open>
  The upload stores a record with blob id 6 and no path beside the two records of the
  state; the delete removes update 7.
\<close>

theorem exclusivity_preserved_witness:
  "all_exclusive srv_two
   \<and> fst (content_upload srv_two Material second_notes_req)
       = Json 200 (ContentDoc ''Material uploaded successfully'' 2 uploaded_notes)
   \<and> filePath uploaded_notes = None \<and> fileId uploaded_notes = Some 6
   \<and> contents (snd (content_upload srv_two Material second_notes_req)) Material 2 = Some uploaded_notes
   \<and> bucket (snd (content_upload srv_two Material second_notes_req)) 6 = Some [1, 2, 3]
   \<and> all_exclusive (snd (content_upload srv_two Material second_notes_req))
   \<and> contents (snd (content_delete srv_two Update 7)) Update 7 = None
   \<and> all_exclusive (snd (content_delete srv_two Update 7))"
proof -
  have inv: "all_exclusive srv_two"
    by (auto simp: all_exclusive_def srv_two_def srv0_def ran_def exclusive_def lecture_def
        no_file_def truthy_def split: if_splits)
  have up: "fst (content_upload srv_two Material second_notes_req)
       = Json 200 (ContentDoc ''Material uploaded successfully'' 2 uploaded_notes)"
    by (simp add: second_notes_upload)
  have blob: "bucket (snd (content_upload srv_two Material second_notes_req)) 6 = Some [1, 2, 3]"
    by (simp add: second_notes_upload)
  have del: "contents (snd (content_delete srv_two Update 7)) Update 7 = None"
    using content_delete_best_effort[of srv_two Update 7 lecture]
    by (simp add: srv_two_def srv0_def)
  from exclusivity_preserved[OF inv, of Material second_notes_req Update 7] up
  have "all_exclusive (snd (content_upload srv_two Material second_notes_req))"
    and "all_exclusive (snd (content_delete srv_two Update 7))"
    and "filePath uploaded_notes = None \<and> fileId uploaded_notes \<noteq> None
         \<and> contents (snd (content_upload srv_two Material second_notes_req)) Material 2 = Some uploaded_notes"
    by blast+
  then show ?thesis using inv up blob del by (simp add: uploaded_notes_def)
qed

text \<open>
  The claim as stated fails: \<^verbatim>\<open>POST /api/materials\<close> with a body that carries both
  \<open>fileId\<close> and \<open>filePath\<close> stores a record with both.
\<close>

theorem exclusivity_counterexample:
  "all_exclusive srv0
   \<and> fst (content_create srv0 Material 1 both_doc) = Json 200 (ContentData 1 both_doc)
   \<and> fileId both_doc = Some 5 \<and> filePath both_doc = Some ''uploads/old-notes.txt''
   \<and> \<not> all_exclusive (snd (content_create srv0 Material 1 both_doc))"
proof -
  have a: "all_exclusive srv0" by (simp add: all_exclusive_def srv0_def)
  have run: "content_create srv0 Material 1 both_doc
      = (Json 200 (ContentData 1 both_doc), srv0\<lparr>contents := (contents srv0)(Material := [1 \<mapsto> both_doc])\<rparr>)"
    by (simp add: content_create_def save_doc_def srv0_def)
  have "\<not> exclusive both_doc"
    by (simp add: exclusive_def both_doc_def lecture_def truthy_def)
  then have "\<not> all_exclusive (srv0\<lparr>contents := (contents srv0)(Material := [1 \<mapsto> both_doc])\<rparr>)"
    by (auto simp: all_exclusive_def ran_def intro!: exI[of _ Material])
  then show ?thesis using a run by (simp add: both_doc_def lecture_def)
qed



end
